theory Spec2Isabelle
  imports Main "HOL-Library.Word" "HOL-Library.Sublist"
begin

section \<open>JavaScript strings\<close>

text \<open>
  A JavaScript string is a sequence of UTF-16 code units. The regular expressions of
  \<^verbatim>\<open>src/app/page.tsx\<close> carry no \<^verbatim>\<open>u\<close> flag and \<^verbatim>\<open>trim\<close> only looks at code units of the
  Basic Multilingual Plane, so every operation below works code unit by code unit.
  \<open>lit\<close> reads an ASCII literal of the source as such a string.
\<close>

type_synonym jschar = "16 word"
type_synonym jsstring = "jschar list"

definition lit :: "string \<Rightarrow> jsstring" where
  "lit s = map of_char s"

definition LF :: jschar where "LF = 0x0A"
definition BACKSLASH :: jschar where "BACKSLASH = 0x5C"
definition SEMICOLON :: jschar where "SEMICOLON = 0x3B"
definition COMMA :: jschar where "COMMA = 0x2C"
definition LETTER_n :: jschar where "LETTER_n = 0x6E"

text \<open>
  \<^verbatim>\<open>value.replace(/c/g, rep)\<close> for a pattern that matches the single code unit \<open>c\<close> and a
  replacement text without \<^verbatim>\<open>$\<close>: every occurrence of \<open>c\<close>, left to right, becomes \<open>rep\<close>.
\<close>

definition replaceAll :: "jschar \<Rightarrow> jsstring \<Rightarrow> jsstring \<Rightarrow> jsstring" where
  "replaceAll c rep s = concat (map (\<lambda>x. if x = c then rep else [x]) s)"

text \<open>\<^verbatim>\<open>lines.join("\n")\<close> and \<^verbatim>\<open>lines.push(x)\<close>.\<close>

fun join :: "jsstring \<Rightarrow> jsstring list \<Rightarrow> jsstring" where
  "join sep [] = []"
| "join sep [x] = x"
| "join sep (x # y # ys) = x @ sep @ join sep (y # ys)"

definition push :: "'a list \<Rightarrow> 'a \<Rightarrow> 'a list" where
  "push xs x = xs @ [x]"

text \<open>
  \<^verbatim>\<open>String.prototype.trim\<close> strips the code units of the ECMAScript productions WhiteSpace
  and LineTerminator from both ends.
\<close>

definition isWhiteSpace :: "jschar \<Rightarrow> bool" where
  "isWhiteSpace c \<longleftrightarrow>
     c = 0x0009 \<or> c = 0x000A \<or> c = 0x000B \<or> c = 0x000C \<or> c = 0x000D \<or> c = 0x0020 \<or>
     c = 0x00A0 \<or> c = 0x1680 \<or> (0x2000 \<le> c \<and> c \<le> 0x200A) \<or> c = 0x2028 \<or> c = 0x2029 \<or>
     c = 0x202F \<or> c = 0x205F \<or> c = 0x3000 \<or> c = 0xFEFF"

definition trim :: "jsstring \<Rightarrow> jsstring" where
  "trim s = rev (dropWhile isWhiteSpace (rev (dropWhile isWhiteSpace s)))"

section \<open>The vCard builder of the current page\<close>

subsection \<open>escapeValue\<close>

text \<open>
  \<^verbatim>\<open>
  const escapeValue = (value: string) =>
    value
      .replace(/\\/g, "\\\\")
      .replace(/\n/g, "\\n")
      .replace(/;/g, "\\;")
      .replace(/,/g, "\\,");
  \<close>
  Four global replacements, one after the other, each on the result of the one before.
\<close>

definition escapeValue :: "jsstring \<Rightarrow> jsstring" where
  "escapeValue v =
     replaceAll COMMA [BACKSLASH, COMMA]
       (replaceAll SEMICOLON [BACKSLASH, SEMICOLON]
         (replaceAll LF [BACKSLASH, LETTER_n]
           (replaceAll BACKSLASH [BACKSLASH, BACKSLASH] v)))"

subsection \<open>parsePhoneNumbers\<close>

text \<open>
  \<^verbatim>\<open>
  const parsePhoneNumbers = (value: string) =>
    value
      .split(/[\n,;]+/)
      .map((entry) => entry.trim())
      .filter(Boolean);
  \<close>
  \<open>splitScan cur s\<close> is the scan of \<^verbatim>\<open>split\<close>: \<open>cur\<close> is the text since the end of the last
  match, \<open>s\<close> the text not yet looked at. At a separator the greedy pattern matches the whole
  run of separators; the piece before it is emitted and the scan goes on behind the run. The
  rest of the text is the last piece, also when it is empty, and an empty input gives one
  empty piece (the pattern does not match the empty string).
\<close>

definition isSeparator :: "jschar \<Rightarrow> bool" where
  "isSeparator c \<longleftrightarrow> c = LF \<or> c = COMMA \<or> c = SEMICOLON"

function splitScan :: "jsstring \<Rightarrow> jsstring \<Rightarrow> jsstring list" where
  "splitScan cur [] = [cur]"
| "splitScan cur (c # cs) =
     (if isSeparator c then cur # splitScan [] (dropWhile isSeparator cs)
      else splitScan (cur @ [c]) cs)"
  by pat_completeness auto
termination
  by (relation "measure (\<lambda>(cur, s). length s)")
     (auto simp: length_dropWhile_le less_Suc_eq_le)

definition splitSeparators :: "jsstring \<Rightarrow> jsstring list" where
  "splitSeparators s = splitScan [] s"

definition parsePhoneNumbers :: "jsstring \<Rightarrow> jsstring list" where
  "parsePhoneNumbers v = filter (\<lambda>entry. entry \<noteq> []) (map trim (splitSeparators v))"

subsection \<open>buildVCard\<close>

datatype AddressType = home | work | other

record BuildVCardArgs =
  fullName :: jsstring
  email :: jsstring
  phones :: "jsstring list"
  address :: jsstring
  addressType :: AddressType
  company :: jsstring
  jobTitle :: jsstring
  birthday :: jsstring
  website :: jsstring
  notes' :: jsstring

text \<open>
  The record field \<open>notes'\<close> is the source's \<^verbatim>\<open>notes\<close> (a reserved word here).
  The string of an address type, and \<^verbatim>\<open>toUpperCase\<close> on it. The source applies
  \<^verbatim>\<open>toUpperCase\<close> to these three lower-case ASCII words only, so the model maps the letters
  a to z and leaves every other code unit as it is.
\<close>

fun addressTypeString :: "AddressType \<Rightarrow> jsstring" where
  "addressTypeString home = lit ''home''"
| "addressTypeString work = lit ''work''"
| "addressTypeString other = lit ''other''"

definition toUpperCase :: "jsstring \<Rightarrow> jsstring" where
  "toUpperCase s = map (\<lambda>c. if 0x61 \<le> c \<and> c \<le> 0x7A then c - 0x20 else c) s"

text \<open>
  \<open>buildVCardLines\<close> is the array \<^verbatim>\<open>lines\<close> when the function reaches
  \<^verbatim>\<open>if (lines.length === 2)\<close>: the two header lines and what each \<^verbatim>\<open>push\<close> appended, in the
  order of the source. A string is truthy when it is not empty. The birthday is pushed as it
  is; every other value goes through \<open>escapeValue\<close>.
\<close>

definition buildVCardLines :: "BuildVCardArgs \<Rightarrow> jsstring list" where
  "buildVCardLines a =
    (let lines = [lit ''BEGIN:VCARD'', lit ''VERSION:3.0''];
         lines = (if fullName a \<noteq> [] then push lines (lit ''FN:'' @ escapeValue (fullName a))
                  else lines);
         lines = (if company a \<noteq> [] then push lines (lit ''ORG:'' @ escapeValue (company a))
                  else lines);
         lines = (if jobTitle a \<noteq> [] then push lines (lit ''TITLE:'' @ escapeValue (jobTitle a))
                  else lines);
         lines = foldl (\<lambda>ls number. push ls (lit ''TEL;TYPE=CELL:'' @ escapeValue number))
                   lines (phones a);
         lines = (if email a \<noteq> []
                  then push lines (lit ''EMAIL;TYPE=INTERNET:'' @ escapeValue (email a))
                  else lines);
         lines = (if address a \<noteq> [] then
                    (let typePrefix =
                       (if addressType a = other then []
                        else lit '';TYPE='' @ toUpperCase (addressTypeString (addressType a)))
                     in push lines (lit ''ADR'' @ typePrefix @ lit '':;;'' @
                                    escapeValue (address a) @ lit '';;;;''))
                  else lines);
         lines = (if birthday a \<noteq> [] then push lines (lit ''BDAY:'' @ birthday a) else lines);
         lines = (if website a \<noteq> [] then push lines (lit ''URL:'' @ escapeValue (website a))
                  else lines);
         lines = (if notes' a \<noteq> [] then push lines (lit ''NOTE:'' @ escapeValue (notes' a))
                  else lines)
     in lines)"

definition buildVCard :: "BuildVCardArgs \<Rightarrow> jsstring" where
  "buildVCard a =
    (let lines = buildVCardLines a
     in if length lines = 2 then []
        else join [LF] (push lines (lit ''END:VCARD'')))"

subsection \<open>The page state and what is derived from it\<close>

text \<open>
  The component \<^verbatim>\<open>Home\<close> of the current page keeps one string per input and the address
  type (\<^verbatim>\<open>showMore\<close> and \<^verbatim>\<open>lastCopiedValue\<close> do not reach the vCard and are left out).
  \<^verbatim>\<open>vCard\<close> is recomputed from the inputs, the phone text going through
  \<open>parsePhoneNumbers\<close>; \<^verbatim>\<open>hasContactInfo = Boolean(vCard)\<close>.
\<close>

record HomeState =
  st_fullName :: jsstring
  st_email :: jsstring
  st_phoneInput :: jsstring
  st_address :: jsstring
  st_addressType :: AddressType
  st_company :: jsstring
  st_jobTitle :: jsstring
  st_birthday :: jsstring
  st_website :: jsstring
  st_notes :: jsstring

definition vCard :: "HomeState \<Rightarrow> jsstring" where
  "vCard st = buildVCard
     \<lparr>fullName = st_fullName st, email = st_email st,
      phones = parsePhoneNumbers (st_phoneInput st),
      address = st_address st, addressType = st_addressType st,
      company = st_company st, jobTitle = st_jobTitle st, birthday = st_birthday st,
      website = st_website st, notes' = st_notes st\<rparr>"

definition hasContactInfo :: "HomeState \<Rightarrow> bool" where
  "hasContactInfo st \<longleftrightarrow> vCard st \<noteq> []"

text \<open>
  The preview panel renders the QR code of \<^verbatim>\<open>vCard\<close> when \<^verbatim>\<open>hasContactInfo\<close> holds and a hint
  otherwise; the buttons Copy vCard, Download QR and Download vCard carry
  \<^verbatim>\<open>disabled={!hasContactInfo}\<close>, and \<^verbatim>\<open>handleDownloadVCard\<close> returns at once without contact
  info and otherwise offers the vCard text under the name \<^verbatim>\<open>${fullName || "contact"}.vcf\<close>.
\<close>

datatype QrPanel = QRCode jsstring | AddDetailHint

definition qrPanel :: "HomeState \<Rightarrow> QrPanel" where
  "qrPanel st = (if hasContactInfo st then QRCode (vCard st) else AddDetailHint)"

definition exportDisabled :: "HomeState \<Rightarrow> bool" where
  "exportDisabled st \<longleftrightarrow> \<not> hasContactInfo st"

definition handleDownloadVCard :: "HomeState \<Rightarrow> (jsstring \<times> jsstring) option" where
  "handleDownloadVCard st =
     (if \<not> hasContactInfo st then None
      else Some ((if st_fullName st \<noteq> [] then st_fullName st else lit ''contact'') @ lit ''.vcf'',
                 vCard st))"

section \<open>The first page: generateQR\<close>

text \<open>
  The first variant of the page has four inputs and a button. \<^verbatim>\<open>generateQR\<close> alerts and
  returns when all four are empty; otherwise it fills a fixed template, whatever is empty,
  and stores the trimmed text in \<^verbatim>\<open>qrValue\<close>. The result is the alert, if any, and the new
  state. \<^verbatim>\<open>x || ""\<close> is \<open>x\<close> for a string \<open>x\<close>.
\<close>

record FirstPageState =
  name :: jsstring
  phone :: jsstring
  address_v1 :: jsstring
  birthday_v1 :: jsstring
  qrValue :: jsstring

definition orEmpty :: "jsstring \<Rightarrow> jsstring" where
  "orEmpty x = (if x \<noteq> [] then x else [])"

definition generateQR :: "FirstPageState \<Rightarrow> jsstring option \<times> FirstPageState" where
  "generateQR st =
     (if name st = [] \<and> phone st = [] \<and> address_v1 st = [] \<and> birthday_v1 st = []
      then (Some (lit ''Please fill in at least one field.''), st)
      else
        (let vCard = replaceAll LF [LF]
               (lit ''BEGIN:VCARD'' @ [LF] @
                lit ''VERSION:3.0'' @ [LF] @
                lit ''FN:'' @ orEmpty (name st) @ [LF] @
                lit ''TEL:'' @ orEmpty (phone st) @ [LF] @
                lit ''ADR:;;'' @ orEmpty (address_v1 st) @ lit '';;;;'' @ [LF] @
                lit ''BDAY:'' @ orEmpty (birthday_v1 st) @ [LF] @
                lit ''END:VCARD'')
         in (None, st\<lparr>qrValue := trim vCard\<rparr>)))"

section \<open>Notions of the specification\<close>

text \<open>
  The vCard escaping rule for text values, one character at a time: backslash, newline,
  semicolon and comma become a backslash followed by backslash, \<open>n\<close>, semicolon and comma.
\<close>

definition vcardEscapeChar :: "jschar \<Rightarrow> jsstring" where
  "vcardEscapeChar c =
     (if c = BACKSLASH then [BACKSLASH, BACKSLASH]
      else if c = LF then [BACKSLASH, LETTER_n]
      else if c = SEMICOLON then [BACKSLASH, SEMICOLON]
      else if c = COMMA then [BACKSLASH, COMMA]
      else [c])"



text \<open>The decoder of the escaping: an escape pair gives back the character it stands for.\<close>

fun unescape :: "jsstring \<Rightarrow> jsstring" where
  "unescape [] = []"
| "unescape [c] = [c]"
| "unescape (c # d # cs) =
     (if c = BACKSLASH then (if d = LETTER_n then LF else d) # unescape cs
      else c # unescape (d # cs))"

text \<open>
  Splitting a text at every single newline, comma or semicolon (two separators in a row
  enclose an empty piece).
\<close>

fun splitEach :: "jsstring \<Rightarrow> jsstring \<Rightarrow> jsstring list" where
  "splitEach cur [] = [cur]"
| "splitEach cur (c # cs) =
     (if isSeparator c then cur # splitEach [] cs else splitEach (cur @ [c]) cs)"

text \<open>
  The fields of a contact record are its nine members that can be empty: the eight strings
  and the phone list (the address type always has a value and gives no line of its own).
  \<open>propertyLines\<close> are the lines the builder appended behind the two header lines,
  \<open>propertyName\<close> is a line up to its first colon.
\<close>

definition isEmptyRecord :: "BuildVCardArgs \<Rightarrow> bool" where
  "isEmptyRecord a \<longleftrightarrow>
     fullName a = [] \<and> company a = [] \<and> jobTitle a = [] \<and> phones a = [] \<and> email a = [] \<and>
     address a = [] \<and> birthday a = [] \<and> website a = [] \<and> notes' a = []"

definition nonEmptyFields :: "BuildVCardArgs \<Rightarrow> nat" where
  "nonEmptyFields a =
     length (filter (\<lambda>b. b)
       [fullName a \<noteq> [], company a \<noteq> [], jobTitle a \<noteq> [], phones a \<noteq> [], email a \<noteq> [],
        address a \<noteq> [], birthday a \<noteq> [], website a \<noteq> [], notes' a \<noteq> []])"

definition propertyLines :: "BuildVCardArgs \<Rightarrow> jsstring list" where
  "propertyLines a = drop 2 (buildVCardLines a)"

definition propertyName :: "jsstring \<Rightarrow> jsstring" where
  "propertyName l = takeWhile (\<lambda>c. c \<noteq> 0x3A) l"

definition telLine :: "jsstring \<Rightarrow> jsstring" where
  "telLine number = lit ''TEL;TYPE=CELL:'' @ escapeValue number"

definition isTelLine :: "jsstring \<Rightarrow> bool" where
  "isTelLine l \<longleftrightarrow> prefix (lit ''TEL;TYPE=CELL:'') l"

definition emptyArgs :: "AddressType \<Rightarrow> BuildVCardArgs" where
  "emptyArgs t =
     \<lparr>fullName = [], email = [], phones = [], address = [], addressType = t, company = [],
      jobTitle = [], birthday = [], website = [], notes' = []\<rparr>"

definition emptyHome :: HomeState where
  "emptyHome =
     \<lparr>st_fullName = [], st_email = [], st_phoneInput = [], st_address = [],
      st_addressType = home, st_company = [], st_jobTitle = [], st_birthday = [],
      st_website = [], st_notes = []\<rparr>"

text \<open>
  The record the page hands to the builder, and the ways its inputs can be empty. On the
  first page the four inputs are all there is.
\<close>

definition argsOf :: "HomeState \<Rightarrow> BuildVCardArgs" where
  "argsOf st =
     \<lparr>fullName = st_fullName st, email = st_email st,
      phones = parsePhoneNumbers (st_phoneInput st),
      address = st_address st, addressType = st_addressType st,
      company = st_company st, jobTitle = st_jobTitle st, birthday = st_birthday st,
      website = st_website st, notes' = st_notes st\<rparr>"

definition otherInputsEmpty :: "HomeState \<Rightarrow> bool" where
  "otherInputsEmpty st \<longleftrightarrow>
     st_fullName st = [] \<and> st_email st = [] \<and> st_address st = [] \<and> st_company st = [] \<and>
     st_jobTitle st = [] \<and> st_birthday st = [] \<and> st_website st = [] \<and> st_notes st = []"

definition allInputsEmpty :: "HomeState \<Rightarrow> bool" where
  "allInputsEmpty st \<longleftrightarrow> otherInputsEmpty st \<and> st_phoneInput st = []"

definition allInputsEmpty_v1 :: "FirstPageState \<Rightarrow> bool" where
  "allInputsEmpty_v1 st \<longleftrightarrow>
     name st = [] \<and> phone st = [] \<and> address_v1 st = [] \<and> birthday_v1 st = []"

text \<open>The phone numbers among the pieces of a split: trimmed, the empty ones dropped.\<close>

definition entries :: "jsstring list \<Rightarrow> jsstring list" where
  "entries ps = filter (\<lambda>entry. entry \<noteq> []) (map trim ps)"

text \<open>
  The birthday of a contact record is a date string: the page takes it from an
  \<^verbatim>\<open><input type="date">\<close>, whose value is empty or a date of the form \<^verbatim>\<open>yyyy-mm-dd\<close> with a
  year of four or more digits. \<open>isDateString\<close> checks this shape (not the calendar).
\<close>

definition HYPHEN :: jschar where "HYPHEN = 0x2D"

definition isDigit :: "jschar \<Rightarrow> bool" where
  "isDigit c \<longleftrightarrow> 0x30 \<le> c \<and> c \<le> 0x39"

definition isDateString :: "jsstring \<Rightarrow> bool" where
  "isDateString b \<longleftrightarrow>
     (case rev b of
        d2 # d1 # h2 # m2 # m1 # h1 # y \<Rightarrow>
          isDigit d1 \<and> isDigit d2 \<and> h2 = HYPHEN \<and> isDigit m1 \<and> isDigit m2 \<and> h1 = HYPHEN \<and>
          4 \<le> length y \<and> list_all isDigit y
      | _ \<Rightarrow> False)"

definition isDateInputValue :: "jsstring \<Rightarrow> bool" where
  "isDateInputValue b \<longleftrightarrow> b = [] \<or> isDateString b"

text \<open>The lines of a text: its pieces between line feeds.\<close>

fun linesScan :: "jsstring \<Rightarrow> jsstring \<Rightarrow> jsstring list" where
  "linesScan cur [] = [cur]"
| "linesScan cur (c # cs) = (if c = LF then cur # linesScan [] cs else linesScan (cur @ [c]) cs)"

definition textLines :: "jsstring \<Rightarrow> jsstring list" where
  "textLines s = linesScan [] s"

text \<open>
  A phone input holds no number when it is empty or made of separators and white space
  only; the page has no contact input when, besides, every other input is empty.
\<close>

definition holdsNoNumber :: "jsstring \<Rightarrow> bool" where
  "holdsNoNumber s \<longleftrightarrow> list_all (\<lambda>c. isSeparator c \<or> isWhiteSpace c) s"

definition noContactInput :: "HomeState \<Rightarrow> bool" where
  "noContactInput st \<longleftrightarrow> otherInputsEmpty st \<and> holdsNoNumber (st_phoneInput st)"

section \<open>Sample inputs\<close>

definition emptyFirstPage :: FirstPageState where
  "emptyFirstPage = \<lparr>name = [], phone = [], address_v1 = [], birthday_v1 = [], qrValue = []\<rparr>"

definition ada :: BuildVCardArgs where
  "ada = (emptyArgs home)\<lparr>fullName := lit ''Ada''\<rparr>"

definition twoPhones :: BuildVCardArgs where
  "twoPhones = (emptyArgs home)\<lparr>phones := [lit ''+84 907 741 147'', lit ''+1 408 592 1508'']\<rparr>"

definition adaTwoPhones :: BuildVCardArgs where
  "adaTwoPhones = ada\<lparr>phones := [lit ''555'', lit ''556'']\<rparr>"

definition adaFull :: BuildVCardArgs where
  "adaFull =
     \<lparr>fullName = lit ''Lovelace, Ada'', email = lit ''ada@example.com'', phones = [lit ''555;1''],
      address = lit ''12 St James Square, London'', addressType = home,
      company = lit ''Analytical Engines; Co.'', jobTitle = [], birthday = lit ''1815-12-10'',
      website = [], notes' = lit ''a'' @ [BACKSLASH, LF] @ lit ''b''\<rparr>"

definition phoneText :: jsstring where
  "phoneText = lit '' +84 907 , 555;;'' @ [LF] @ lit ''+1 408 ''"

definition blankPhoneText :: jsstring where
  "blankPhoneText = lit '' ,; '' @ [LF, 0x09, LF] @ lit '', ''"

definition semicolonPhone :: HomeState where
  "semicolonPhone = emptyHome\<lparr>st_phoneInput := lit '';''\<rparr>"

definition phoneOnly :: HomeState where
  "phoneOnly = emptyHome\<lparr>st_phoneInput := lit ''555''\<rparr>"

definition phoneOnly_v1 :: FirstPageState where
  "phoneOnly_v1 = emptyFirstPage\<lparr>phone := lit ''555''\<rparr>"

section \<open>Auxiliary facts\<close>

lemmas char_defs = LF_def BACKSLASH_def SEMICOLON_def COMMA_def LETTER_n_def

subsection \<open>Escaping\<close>

lemma replaceAll_Nil: "replaceAll c rep [] = []"
  by (simp add: replaceAll_def)

lemma replaceAll_Cons:
  "replaceAll c rep (x # xs) = (if x = c then rep else [x]) @ replaceAll c rep xs"
  by (simp add: replaceAll_def)

lemma replaceAll_append:
  "replaceAll c rep (xs @ ys) = replaceAll c rep xs @ replaceAll c rep ys"
  by (simp add: replaceAll_def)

lemma replaceAll_same: "replaceAll c [c] s = s"
  by (induction s) (simp_all add: replaceAll_def)

lemma escapeValue_Nil: "escapeValue [] = []"
  by (simp add: escapeValue_def replaceAll_Nil)

lemma escapeValue_Cons: "escapeValue (c # cs) = vcardEscapeChar c @ escapeValue cs"
  by (simp add: escapeValue_def vcardEscapeChar_def replaceAll_Cons replaceAll_append
      replaceAll_Nil char_defs)


lemma unescape_vcardEscapeChar: "unescape (vcardEscapeChar c @ r) = c # unescape r"
  by (cases r) (simp_all add: vcardEscapeChar_def char_defs)

lemma unescape_escapeValue: "unescape (escapeValue s) = s"
  by (induction s) (simp_all add: escapeValue_Nil escapeValue_Cons unescape_vcardEscapeChar)



lemmas eval_simps = escapeValue_Cons escapeValue_Nil vcardEscapeChar_def lit_def char_defs

subsection \<open>The lines of the builder\<close>

lemma foldl_push: "foldl (\<lambda>ls x. push ls (f x)) xs ys = xs @ map f ys"
  by (induction ys arbitrary: xs) (simp_all add: push_def)

lemma if_push: "(if b then push xs x else xs) = xs @ (if b then [x] else [])"
  by (simp add: push_def)

lemma typePrefix_cases:
  "(if t = other then [] else lit '';TYPE='' @ toUpperCase (addressTypeString t)) =
   (case t of home \<Rightarrow> lit '';TYPE=HOME'' | work \<Rightarrow> lit '';TYPE=WORK'' | other \<Rightarrow> [])"
  by (cases t) (simp_all add: toUpperCase_def lit_def)

lemma buildVCardLines_eq:
  "buildVCardLines a =
     [lit ''BEGIN:VCARD'', lit ''VERSION:3.0''] @
     (if fullName a \<noteq> [] then [lit ''FN:'' @ escapeValue (fullName a)] else []) @
     (if company a \<noteq> [] then [lit ''ORG:'' @ escapeValue (company a)] else []) @
     (if jobTitle a \<noteq> [] then [lit ''TITLE:'' @ escapeValue (jobTitle a)] else []) @
     map telLine (phones a) @
     (if email a \<noteq> [] then [lit ''EMAIL;TYPE=INTERNET:'' @ escapeValue (email a)] else []) @
     (if address a \<noteq> []
      then [lit ''ADR'' @
            (case addressType a of home \<Rightarrow> lit '';TYPE=HOME'' | work \<Rightarrow> lit '';TYPE=WORK''
             | other \<Rightarrow> []) @
            lit '':;;'' @ escapeValue (address a) @ lit '';;;;'']
      else []) @
     (if birthday a \<noteq> [] then [lit ''BDAY:'' @ birthday a] else []) @
     (if website a \<noteq> [] then [lit ''URL:'' @ escapeValue (website a)] else []) @
     (if notes' a \<noteq> [] then [lit ''NOTE:'' @ escapeValue (notes' a)] else [])"
  unfolding buildVCardLines_def Let_def if_push foldl_push typePrefix_cases
  by (simp add: telLine_def [abs_def])

lemma propertyLines_eq:
  "propertyLines a =
     (if fullName a \<noteq> [] then [lit ''FN:'' @ escapeValue (fullName a)] else []) @
     (if company a \<noteq> [] then [lit ''ORG:'' @ escapeValue (company a)] else []) @
     (if jobTitle a \<noteq> [] then [lit ''TITLE:'' @ escapeValue (jobTitle a)] else []) @
     map telLine (phones a) @
     (if email a \<noteq> [] then [lit ''EMAIL;TYPE=INTERNET:'' @ escapeValue (email a)] else []) @
     (if address a \<noteq> []
      then [lit ''ADR'' @
            (case addressType a of home \<Rightarrow> lit '';TYPE=HOME'' | work \<Rightarrow> lit '';TYPE=WORK''
             | other \<Rightarrow> []) @
            lit '':;;'' @ escapeValue (address a) @ lit '';;;;'']
      else []) @
     (if birthday a \<noteq> [] then [lit ''BDAY:'' @ birthday a] else []) @
     (if website a \<noteq> [] then [lit ''URL:'' @ escapeValue (website a)] else []) @
     (if notes' a \<noteq> [] then [lit ''NOTE:'' @ escapeValue (notes' a)] else [])"
  unfolding propertyLines_def buildVCardLines_eq by simp

lemma buildVCardLines_header:
  "buildVCardLines a = [lit ''BEGIN:VCARD'', lit ''VERSION:3.0''] @ propertyLines a"
  unfolding propertyLines_def buildVCardLines_eq by simp

lemma propertyLines_Nil_iff: "propertyLines a = [] \<longleftrightarrow> isEmptyRecord a"
  unfolding propertyLines_eq isEmptyRecord_def by auto

lemma nonEmptyFields_0_iff: "nonEmptyFields a = 0 \<longleftrightarrow> isEmptyRecord a"
  unfolding nonEmptyFields_def isEmptyRecord_def by auto

lemma nonEmptyFields_1:
  assumes "nonEmptyFields a = 1"
  shows "fullName a \<noteq> [] \<Longrightarrow> company a = [] \<and> jobTitle a = [] \<and> phones a = [] \<and> email a = [] \<and>
           address a = [] \<and> birthday a = [] \<and> website a = [] \<and> notes' a = []"
    and "company a \<noteq> [] \<Longrightarrow> fullName a = [] \<and> jobTitle a = [] \<and> phones a = [] \<and> email a = [] \<and>
           address a = [] \<and> birthday a = [] \<and> website a = [] \<and> notes' a = []"
    and "jobTitle a \<noteq> [] \<Longrightarrow> fullName a = [] \<and> company a = [] \<and> phones a = [] \<and> email a = [] \<and>
           address a = [] \<and> birthday a = [] \<and> website a = [] \<and> notes' a = []"
    and "phones a \<noteq> [] \<Longrightarrow> fullName a = [] \<and> company a = [] \<and> jobTitle a = [] \<and> email a = [] \<and>
           address a = [] \<and> birthday a = [] \<and> website a = [] \<and> notes' a = []"
    and "email a \<noteq> [] \<Longrightarrow> fullName a = [] \<and> company a = [] \<and> jobTitle a = [] \<and> phones a = [] \<and>
           address a = [] \<and> birthday a = [] \<and> website a = [] \<and> notes' a = []"
    and "address a \<noteq> [] \<Longrightarrow> fullName a = [] \<and> company a = [] \<and> jobTitle a = [] \<and> phones a = [] \<and>
           email a = [] \<and> birthday a = [] \<and> website a = [] \<and> notes' a = []"
    and "birthday a \<noteq> [] \<Longrightarrow> fullName a = [] \<and> company a = [] \<and> jobTitle a = [] \<and> phones a = [] \<and>
           email a = [] \<and> address a = [] \<and> website a = [] \<and> notes' a = []"
    and "website a \<noteq> [] \<Longrightarrow> fullName a = [] \<and> company a = [] \<and> jobTitle a = [] \<and> phones a = [] \<and>
           email a = [] \<and> address a = [] \<and> birthday a = [] \<and> notes' a = []"
    and "notes' a \<noteq> [] \<Longrightarrow> fullName a = [] \<and> company a = [] \<and> jobTitle a = [] \<and> phones a = [] \<and>
           email a = [] \<and> address a = [] \<and> birthday a = [] \<and> website a = []"
  using assms unfolding nonEmptyFields_def
  by (simp_all split: if_splits)

lemma length_propertyLines:
  "length (propertyLines a) + (if phones a = [] then 0 else 1) =
   nonEmptyFields a + length (phones a)"
  by (simp add: propertyLines_eq nonEmptyFields_def)

lemma join_Cons: "join sep (x # xs) = (if xs = [] then x else x @ sep @ join sep xs)"
  by (cases xs) simp_all

lemma join_snoc: "xs \<noteq> [] \<Longrightarrow> join sep (xs @ [z]) = join sep xs @ sep @ z"
  by (induction sep xs rule: join.induct) simp_all

lemma buildVCard_eq:
  "buildVCard a =
     (if propertyLines a = [] then []
      else join [LF] ([lit ''BEGIN:VCARD'', lit ''VERSION:3.0''] @ propertyLines a @
                      [lit ''END:VCARD'']))"
  unfolding buildVCard_def Let_def buildVCardLines_header push_def by simp

lemma buildVCard_text:
  assumes "propertyLines a \<noteq> []"
  shows "buildVCard a =
           lit ''BEGIN:VCARD'' @ [LF] @ lit ''VERSION:3.0'' @ [LF] @
           join [LF] (propertyLines a) @ [LF] @ lit ''END:VCARD''"
proof -
  have "join [LF] (propertyLines a @ [lit ''END:VCARD'']) =
          join [LF] (propertyLines a) @ [LF] @ lit ''END:VCARD''"
    using assms by (rule join_snoc)
  with assms show ?thesis
    by (simp add: buildVCard_eq join_Cons)
qed

lemma buildVCard_Nil_iff: "buildVCard a = [] \<longleftrightarrow> isEmptyRecord a"
proof (cases "propertyLines a = []")
  case True
  then show ?thesis
    by (simp add: buildVCard_eq propertyLines_Nil_iff)
next
  case False
  from buildVCard_text [OF False] have "buildVCard a \<noteq> []"
    by (simp add: lit_def)
  with False show ?thesis
    by (simp add: propertyLines_Nil_iff)
qed

lemma isTelLine_telLine: "isTelLine (telLine n)"
  by (simp add: isTelLine_def telLine_def)

lemma filter_isTelLine_map: "filter isTelLine (map telLine ns) = map telLine ns"
  by (induction ns) (simp_all add: isTelLine_telLine)

lemma filter_isTelLine_lines: "filter isTelLine (buildVCardLines a) = map telLine (phones a)"
  unfolding buildVCardLines_eq filter_append filter_isTelLine_map
  by (simp add: isTelLine_def lit_def)

lemma propertyName_telLine: "propertyName (telLine n) = lit ''TEL;TYPE=CELL''"
  by (simp add: propertyName_def telLine_def lit_def)

lemma map_propertyName_telLine:
  "map propertyName (map telLine ns) = replicate (length ns) (lit ''TEL;TYPE=CELL'')"
  by (induction ns) (simp_all add: propertyName_telLine)

subsection \<open>trim\<close>

lemma trim_Nil: "trim [] = []"
  by (simp add: trim_def)

lemma set_trim: "set (trim s) \<subseteq> set s"
  by (auto simp: trim_def dest!: set_dropWhileD)

lemma dropWhile_rev_dropWhile_Nil:
  "dropWhile P (rev (dropWhile P s)) = [] \<longleftrightarrow> dropWhile P s = []"
proof
  assume "dropWhile P (rev (dropWhile P s)) = []"
  then have all: "\<forall>x\<in>set (dropWhile P s). P x"
    by (simp add: dropWhile_eq_Nil_conv)
  show "dropWhile P s = []"
  proof (rule ccontr)
    assume ne: "dropWhile P s \<noteq> []"
    then have "\<not> P (hd (dropWhile P s))"
      by (rule hd_dropWhile)
    moreover from ne have "hd (dropWhile P s) \<in> set (dropWhile P s)"
      by (rule hd_in_set)
    ultimately show False
      using all by blast
  qed
next
  assume "dropWhile P s = []"
  then show "dropWhile P (rev (dropWhile P s)) = []"
    by (simp only: rev.simps dropWhile.simps)
qed

lemma trim_Nil_iff: "trim s = [] \<longleftrightarrow> (\<forall>c\<in>set s. isWhiteSpace c)"
proof -
  have "trim s = [] \<longleftrightarrow> dropWhile isWhiteSpace s = []"
    by (simp only: trim_def rev_is_Nil_conv dropWhile_rev_dropWhile_Nil)
  then show ?thesis
    by (simp only: dropWhile_eq_Nil_conv)
qed

lemma trim_not_Nil: "c \<in> set s \<Longrightarrow> \<not> isWhiteSpace c \<Longrightarrow> trim s \<noteq> []"
  by (auto simp: trim_Nil_iff)

lemma trim_ends:
  assumes "trim s \<noteq> []"
  shows "\<not> isWhiteSpace (hd (trim s))" and "\<not> isWhiteSpace (last (trim s))"
proof -
  let ?t = "dropWhile isWhiteSpace s"
  let ?u = "dropWhile isWhiteSpace (rev ?t)"
  from assms have u: "?u \<noteq> []"
    by (simp only: trim_def rev_is_Nil_conv not_False_eq_True)
  then have t: "?t \<noteq> []"
    by (simp only: dropWhile_rev_dropWhile_Nil not_False_eq_True)
  have "last (trim s) = hd ?u"
    using u by (simp only: trim_def last_rev)
  moreover have "\<not> isWhiteSpace (hd ?u)"
    using u by (rule hd_dropWhile)
  ultimately show "\<not> isWhiteSpace (last (trim s))"
    by simp
  have "hd (trim s) = last ?u"
    using u by (simp only: trim_def hd_rev)
  also have "\<dots> = last (takeWhile isWhiteSpace (rev ?t) @ ?u)"
    using u by (rule last_appendR [symmetric])
  also have "\<dots> = last (rev ?t)"
    by (simp only: takeWhile_dropWhile_id)
  also have "\<dots> = hd ?t"
    using t by (simp only: last_rev)
  finally show "\<not> isWhiteSpace (hd (trim s))"
    using hd_dropWhile [OF t] by simp
qed

subsection \<open>The pieces of split and the phone numbers\<close>

lemma splitScan_no_separator:
  "\<forall>c\<in>set cur. \<not> isSeparator c \<Longrightarrow> p \<in> set (splitScan cur s) \<Longrightarrow> c \<in> set p \<Longrightarrow>
   \<not> isSeparator c"
  by (induction cur s rule: splitScan.induct) (auto split: if_splits)

lemma splitScan_subset:
  "p \<in> set (splitScan cur s) \<Longrightarrow> set p \<subseteq> set cur \<union> set s"
proof (induction cur s rule: splitScan.induct)
  case (1 cur)
  then show ?case by simp
next
  case (2 cur c cs)
  show ?case
  proof (cases "isSeparator c")
    case True
    with 2 show ?thesis
      by (auto dest: set_dropWhileD)
  next
    case False
    with 2 show ?thesis
      by auto
  qed
qed

lemma splitSeparators_pieces:
  assumes "p \<in> set (splitSeparators s)"
  shows "set p \<subseteq> set s" and "\<forall>c\<in>set p. \<not> isSeparator c"
  using assms splitScan_subset [of p "[]" s] splitScan_no_separator [of "[]" p s]
  by (auto simp: splitSeparators_def)

lemma parsePhoneNumbers_entry:
  assumes "e \<in> set (parsePhoneNumbers s)"
  shows "e \<noteq> []" and "set e \<subseteq> set s" and "\<forall>c\<in>set e. \<not> isSeparator c"
    and "\<not> isWhiteSpace (hd e)" and "\<not> isWhiteSpace (last e)"
proof -
  from assms obtain p where p: "p \<in> set (splitSeparators s)" and e: "e = trim p" and ne: "e \<noteq> []"
    by (auto simp: parsePhoneNumbers_def)
  show "e \<noteq> []" by (rule ne)
  have sub: "set e \<subseteq> set p"
    unfolding e by (rule set_trim)
  with splitSeparators_pieces [OF p] show "set e \<subseteq> set s" and "\<forall>c\<in>set e. \<not> isSeparator c"
    by auto
  from ne show "\<not> isWhiteSpace (hd e)" and "\<not> isWhiteSpace (last e)"
    unfolding e by (rule trim_ends)+
qed

lemma parsePhoneNumbers_blank:
  assumes "\<forall>c\<in>set s. isSeparator c \<or> isWhiteSpace c"
  shows "parsePhoneNumbers s = []"
proof -
  have "trim p = []" if "p \<in> set (splitSeparators s)" for p
    using splitSeparators_pieces [OF that] assms
    by (auto simp: trim_Nil_iff)
  then show ?thesis
    by (auto simp: parsePhoneNumbers_def filter_empty_conv)
qed

lemma parsePhoneNumbers_Nil: "parsePhoneNumbers [] = []"
  by (simp add: parsePhoneNumbers_def splitSeparators_def trim_Nil)

lemma entries_splitEach_dropWhile:
  "entries (splitEach [] (dropWhile isSeparator cs)) = entries (splitEach [] cs)"
  by (induction cs) (simp_all add: entries_def trim_Nil)

lemma entries_splitScan: "entries (splitScan cur s) = entries (splitEach cur s)"
proof (induction cur s rule: splitScan.induct)
  case (1 cur)
  then show ?case by simp
next
  case (2 cur c cs)
  show ?case
  proof (cases "isSeparator c")
    case True
    with 2 have "entries (splitScan [] (dropWhile isSeparator cs)) = entries (splitEach [] cs)"
      by (simp add: entries_splitEach_dropWhile)
    with True show ?thesis
      by (simp add: entries_def)
  next
    case False
    with 2 show ?thesis by simp
  qed
qed

lemma parsePhoneNumbers_splitEach:
  "parsePhoneNumbers s = filter (\<lambda>entry. entry \<noteq> []) (map trim (splitEach [] s))"
  using entries_splitScan [of "[]" s]
  by (simp add: parsePhoneNumbers_def splitSeparators_def entries_def)

lemma parse_phoneText: "parsePhoneNumbers phoneText = [lit ''+84 907'', lit ''555'', lit ''+1 408'']"
  by (simp add: parsePhoneNumbers_def splitSeparators_def phoneText_def lit_def isSeparator_def
      trim_def isWhiteSpace_def char_defs)

subsection \<open>The two pages\<close>

lemma vCard_argsOf: "vCard st = buildVCard (argsOf st)"
  by (simp add: vCard_def argsOf_def)

lemma isEmptyRecord_argsOf:
  "isEmptyRecord (argsOf st) \<longleftrightarrow> otherInputsEmpty st \<and> parsePhoneNumbers (st_phoneInput st) = []"
  by (auto simp: isEmptyRecord_def argsOf_def otherInputsEmpty_def)

lemma generateQR_value:
  "\<not> allInputsEmpty_v1 st \<Longrightarrow>
   fst (generateQR st) = None \<and> qrValue (snd (generateQR st)) \<noteq> []"
proof -
  assume h: "\<not> allInputsEmpty_v1 st"
  have "trim (lit ''BEGIN:VCARD'' @ r) \<noteq> []" for r
    by (rule trim_not_Nil [where c = "0x42"]) (simp_all add: lit_def isWhiteSpace_def)
  with h show ?thesis
    by (simp add: generateQR_def allInputsEmpty_v1_def Let_def replaceAll_same)
qed

lemma orEmpty_id: "orEmpty x = x"
  by (simp add: orEmpty_def)

lemma trim_id:
  assumes "s \<noteq> []" and "\<not> isWhiteSpace (hd s)" and "\<not> isWhiteSpace (last s)"
  shows "trim s = s"
proof -
  from assms(1,2) have 1: "dropWhile isWhiteSpace s = s"
    by (cases s) simp_all
  from assms(1,3) have 2: "dropWhile isWhiteSpace (rev s) = rev s"
    by (cases "rev s") (simp_all add: last_rev [symmetric] del: rev_rev_ident)
  show ?thesis
    by (simp only: trim_def 1 2 rev_rev_ident)
qed

lemma generateQR_text:
  assumes "\<not> allInputsEmpty_v1 fs"
  shows "generateQR fs =
     (None, fs\<lparr>qrValue :=
        lit ''BEGIN:VCARD'' @ [LF] @ lit ''VERSION:3.0'' @ [LF] @
        lit ''FN:'' @ name fs @ [LF] @
        lit ''TEL:'' @ phone fs @ [LF] @
        lit ''ADR:;;'' @ address_v1 fs @ lit '';;;;'' @ [LF] @
        lit ''BDAY:'' @ birthday_v1 fs @ [LF] @
        lit ''END:VCARD''\<rparr>)"
proof -
  let ?t = "lit ''BEGIN:VCARD'' @ [LF] @ lit ''VERSION:3.0'' @ [LF] @
        lit ''FN:'' @ name fs @ [LF] @
        lit ''TEL:'' @ phone fs @ [LF] @
        lit ''ADR:;;'' @ address_v1 fs @ lit '';;;;'' @ [LF] @
        lit ''BDAY:'' @ birthday_v1 fs @ [LF] @
        lit ''END:VCARD''"
  have t: "trim ?t = ?t"
    by (rule trim_id) (simp_all add: lit_def isWhiteSpace_def)
  have c: "(name fs = [] \<and> phone fs = [] \<and> address_v1 fs = [] \<and> birthday_v1 fs = []) = False"
    using assms by (simp add: allInputsEmpty_v1_def)
  show ?thesis
    unfolding generateQR_def c if_False Let_def replaceAll_same orEmpty_id t ..
qed

lemma in_set_dropWhile: "c \<in> set cs \<Longrightarrow> \<not> P c \<Longrightarrow> c \<in> set (dropWhile P cs)"
  by (induction cs) auto

lemma splitScan_covers:
  "c \<in> set cur \<union> set s \<Longrightarrow> \<not> isSeparator c \<Longrightarrow> \<exists>p\<in>set (splitScan cur s). c \<in> set p"
proof (induction cur s rule: splitScan.induct)
  case (1 cur)
  then show ?case by simp
next
  case (2 cur x xs)
  show ?case
  proof (cases "isSeparator x")
    case True
    show ?thesis
    proof (cases "c \<in> set cur")
      case True
      with \<open>isSeparator x\<close> show ?thesis by simp
    next
      case False
      with 2(3,4) True have "c \<in> set xs"
        by auto
      with 2(4) have "c \<in> set [] \<union> set (dropWhile isSeparator xs)"
        by (simp add: in_set_dropWhile)
      from 2(1) [OF True this 2(4)] True show ?thesis
        by simp
    qed
  next
    case False
    from 2(3) have "c \<in> set (cur @ [x]) \<union> set xs"
      by auto
    from 2(2) [OF False this 2(4)] False show ?thesis
      by simp
  qed
qed

lemma parsePhoneNumbers_Nil_iff: "parsePhoneNumbers s = [] \<longleftrightarrow> holdsNoNumber s"
proof
  assume "holdsNoNumber s"
  then show "parsePhoneNumbers s = []"
    by (simp add: holdsNoNumber_def list_all_iff parsePhoneNumbers_blank)
next
  assume e: "parsePhoneNumbers s = []"
  show "holdsNoNumber s"
  proof (rule ccontr)
    assume "\<not> holdsNoNumber s"
    then obtain c where c: "c \<in> set s" "\<not> isSeparator c" "\<not> isWhiteSpace c"
      by (auto simp: holdsNoNumber_def list_all_iff)
    from splitScan_covers [of c "[]" s] c obtain p
      where p: "p \<in> set (splitSeparators s)" "c \<in> set p"
      by (auto simp: splitSeparators_def)
    from p(2) c(3) have "trim p \<noteq> []"
      by (rule trim_not_Nil)
    with p(1) have "trim p \<in> set (parsePhoneNumbers s)"
      by (simp add: parsePhoneNumbers_def)
    with e show False
      by simp
  qed
qed

lemma vCard_Nil_iff: "vCard st = [] \<longleftrightarrow> noContactInput st"
  by (simp add: vCard_argsOf buildVCard_Nil_iff isEmptyRecord_argsOf parsePhoneNumbers_Nil_iff
      noContactInput_def)

subsection \<open>Date strings\<close>

lemma isDateString_chars:
  assumes "isDateString b"
  shows "\<forall>c\<in>set b. isDigit c \<or> c = HYPHEN"
proof -
  from assms obtain d2 d1 h2 m2 m1 h1 y where r: "rev b = d2 # d1 # h2 # m2 # m1 # h1 # y"
    and d: "isDigit d1" "isDigit d2" "h2 = HYPHEN" "isDigit m1" "isDigit m2" "h1 = HYPHEN"
      "list_all isDigit y"
    by (auto simp: isDateString_def split: list.splits)
  have "set b = set (rev b)"
    by simp
  with r d show ?thesis
    by (auto simp: list_all_iff)
qed

lemma isDateInputValue_plain:
  assumes "isDateInputValue b" and "c \<in> set b"
  shows "c \<noteq> BACKSLASH \<and> c \<noteq> LF \<and> c \<noteq> SEMICOLON \<and> c \<noteq> COMMA"
proof -
  from assms have "isDateString b"
    by (auto simp: isDateInputValue_def)
  with assms(2) have "isDigit c \<or> c = HYPHEN"
    using isDateString_chars by blast
  then show ?thesis
    by (auto simp: isDigit_def HYPHEN_def char_defs)
qed

lemma isDateInputValue_LF: "isDateInputValue b \<Longrightarrow> LF \<notin> set b"
  by (blast dest: isDateInputValue_plain)



subsection \<open>The lines of the returned text\<close>

lemma LF_notin_vcardEscapeChar: "LF \<notin> set (vcardEscapeChar c)"
  by (simp add: vcardEscapeChar_def char_defs)

lemma LF_notin_escapeValue: "LF \<notin> set (escapeValue v)"
  by (induction v) (simp_all add: escapeValue_Nil escapeValue_Cons LF_notin_vcardEscapeChar)

lemma linesScan_line: "LF \<notin> set l \<Longrightarrow> linesScan cur l = [cur @ l]"
  by (induction l arbitrary: cur) auto

lemma linesScan_append:
  "LF \<notin> set l \<Longrightarrow> linesScan cur (l @ LF # r) = (cur @ l) # linesScan [] r"
  by (induction l arbitrary: cur) auto

lemma textLines_join:
  "ls \<noteq> [] \<Longrightarrow> \<forall>l\<in>set ls. LF \<notin> set l \<Longrightarrow> textLines (join [LF] ls) = ls"
proof (induction "[LF]" ls rule: join.induct)
  case 1
  then show ?case by simp
next
  case (2 x)
  then show ?case
    by (simp add: textLines_def linesScan_line)
next
  case (3 x y ys)
  then show ?case
    by (simp add: textLines_def linesScan_append)
qed

lemma LF_notin_lines:
  assumes "LF \<notin> set (birthday a)"
  shows "\<forall>l\<in>set (buildVCardLines a). LF \<notin> set l"
proof -
  have lits: "LF \<notin> set (lit ''BEGIN:VCARD'')" "LF \<notin> set (lit ''VERSION:3.0'')"
    "LF \<notin> set (lit ''FN:'')" "LF \<notin> set (lit ''ORG:'')" "LF \<notin> set (lit ''TITLE:'')"
    "LF \<notin> set (lit ''TEL;TYPE=CELL:'')" "LF \<notin> set (lit ''EMAIL;TYPE=INTERNET:'')"
    "LF \<notin> set (lit ''ADR'')" "LF \<notin> set (lit '';TYPE=HOME'')" "LF \<notin> set (lit '';TYPE=WORK'')"
    "LF \<notin> set (lit '':;;'')" "LF \<notin> set (lit '';;;;'')" "LF \<notin> set (lit ''BDAY:'')"
    "LF \<notin> set (lit ''URL:'')" "LF \<notin> set (lit ''NOTE:'')"
    by (simp_all add: lit_def LF_def)
  from assms lits show ?thesis
    unfolding buildVCardLines_eq
    by (auto simp: telLine_def LF_notin_escapeValue split: AddressType.splits if_splits)
qed

lemma textLines_buildVCard:
  assumes "LF \<notin> set (birthday a)" and "\<not> isEmptyRecord a"
  shows "textLines (buildVCard a) = buildVCardLines a @ [lit ''END:VCARD'']"
proof -
  have "LF \<notin> set (lit ''END:VCARD'')"
    by (simp add: lit_def LF_def)
  with LF_notin_lines [OF assms(1)]
  have "\<forall>l\<in>set (buildVCardLines a @ [lit ''END:VCARD'']). LF \<notin> set l"
    by simp
  then have "textLines (join [LF] (buildVCardLines a @ [lit ''END:VCARD''])) =
      buildVCardLines a @ [lit ''END:VCARD'']"
    by (intro textLines_join) simp_all
  moreover from assms(2) have "buildVCard a = join [LF] (buildVCardLines a @ [lit ''END:VCARD''])"
    by (simp add: buildVCard_eq propertyLines_Nil_iff buildVCardLines_header)
  ultimately show ?thesis
    by simp
qed

lemma telLines_buildVCard:
  assumes "LF \<notin> set (birthday a)"
  shows "filter isTelLine (textLines (buildVCard a)) = map telLine (phones a)"
proof (cases "isEmptyRecord a")
  case True
  then have "buildVCard a = []" and "phones a = []"
    by (simp_all add: buildVCard_Nil_iff isEmptyRecord_def)
  then show ?thesis
    by (simp add: textLines_def isTelLine_def lit_def)
next
  case False
  have "\<not> isTelLine (lit ''END:VCARD'')"
    by (simp add: isTelLine_def lit_def)
  then show ?thesis
    by (simp add: textLines_buildVCard [OF assms False] filter_isTelLine_lines)
qed

section \<open>Escaping of the inserted values\<close>



text \<open>
  C6. The escaping loses nothing: the decoder \<open>unescape\<close> gives back every string from its
  escaped form, so \<open>escapeValue\<close> is injective.
\<close>

theorem escapeValue_reversible:
  "unescape (escapeValue s) = s \<and> inj escapeValue"
proof
  show "unescape (escapeValue s) = s"
    by (rule unescape_escapeValue)
  show "inj escapeValue"
    by (rule inj_on_inverseI [where g = unescape]) (rule unescape_escapeValue)
qed

theorem escapeValue_reversible_witness:
  "unescape (escapeValue ([BACKSLASH, LETTER_n, LF] @ lit ''a;b,c'')) =
     [BACKSLASH, LETTER_n, LF] @ lit ''a;b,c'' \<and>
   escapeValue ([BACKSLASH, LETTER_n, LF] @ lit ''a;b,c'') =
     [BACKSLASH, BACKSLASH, LETTER_n, BACKSLASH, LETTER_n] @ lit ''a'' @ [BACKSLASH] @
     lit '';b'' @ [BACKSLASH] @ lit '',c''"
  using escapeValue_reversible [of "[BACKSLASH, LETTER_n, LF] @ lit ''a;b,c''"]
  by (simp add: escapeValue_Cons escapeValue_Nil vcardEscapeChar_def lit_def char_defs)

section \<open>The lines of the output\<close>

text \<open>
  C3. For the empty record (every string field empty and the phone list empty, whatever the
  address type) the builder returns the empty string.
\<close>

theorem buildVCard_empty_record: "isEmptyRecord a \<Longrightarrow> buildVCard a = []"
  by (simp add: buildVCard_eq propertyLines_Nil_iff)

theorem buildVCard_empty_record_witness:
  "isEmptyRecord (emptyArgs work) \<and> buildVCard (emptyArgs work) = []"
proof -
  have h: "isEmptyRecord (emptyArgs work)"
    by (simp add: isEmptyRecord_def emptyArgs_def)
  from h buildVCard_empty_record [OF h] show ?thesis by simp
qed

text \<open>
  C7. For a record with at least one non-empty field the output begins with the lines
  \<^verbatim>\<open>BEGIN:VCARD\<close> and \<^verbatim>\<open>VERSION:3.0\<close> and ends with the line \<^verbatim>\<open>END:VCARD\<close>.
\<close>

theorem buildVCard_framing:
  assumes "0 < nonEmptyFields a"
  shows "prefix (lit ''BEGIN:VCARD'' @ [LF] @ lit ''VERSION:3.0'' @ [LF]) (buildVCard a) \<and>
         suffix ([LF] @ lit ''END:VCARD'') (buildVCard a)"
proof -
  from assms have "propertyLines a \<noteq> []"
    by (simp add: propertyLines_Nil_iff flip: nonEmptyFields_0_iff)
  then have "buildVCard a =
      lit ''BEGIN:VCARD'' @ [LF] @ lit ''VERSION:3.0'' @ [LF] @
      join [LF] (propertyLines a) @ [LF] @ lit ''END:VCARD''"
    by (rule buildVCard_text)
  then show ?thesis
    by (simp add: suffix_def) 
qed

theorem buildVCard_framing_witness:
  "0 < nonEmptyFields ada \<and>
   buildVCard ada = lit ''BEGIN:VCARD'' @ [LF] @ lit ''VERSION:3.0'' @ [LF] @ lit ''FN:Ada'' @ [LF] @ lit ''END:VCARD'' \<and>
   prefix (lit ''BEGIN:VCARD'' @ [LF] @ lit ''VERSION:3.0'' @ [LF]) (buildVCard ada) \<and>
   suffix ([LF] @ lit ''END:VCARD'') (buildVCard ada)"
proof -
  have h: "0 < nonEmptyFields ada"
    by (simp add: nonEmptyFields_def ada_def emptyArgs_def lit_def)
  have "buildVCard ada = lit ''BEGIN:VCARD'' @ [LF] @ lit ''VERSION:3.0'' @ [LF] @ lit ''FN:Ada'' @ [LF] @ lit ''END:VCARD''"
    by (simp add: buildVCard_eq propertyLines_eq ada_def emptyArgs_def escapeValue_Cons escapeValue_Nil
      vcardEscapeChar_def lit_def char_defs)
  with h buildVCard_framing [OF h] show ?thesis by simp
qed

text \<open>
  C2, as amended. For a record with exactly one non-empty field the output is the join of
  \<^verbatim>\<open>BEGIN:VCARD\<close>, \<^verbatim>\<open>VERSION:3.0\<close>, the property lines of that field and \<^verbatim>\<open>END:VCARD\<close>,
  and nothing else: exactly one property line when the field is a string, and one
  \<^verbatim>\<open>TEL;TYPE=CELL\<close> line for each entry when the field is the phone list.
\<close>

theorem single_field_output:
  assumes "nonEmptyFields a = 1"
  shows
   "buildVCard a =
      join [LF] ([lit ''BEGIN:VCARD'', lit ''VERSION:3.0''] @ propertyLines a @ [lit ''END:VCARD'']) \<and>
    length (propertyLines a) = (if phones a = [] then 1 else length (phones a)) \<and>
    (fullName a \<noteq> [] \<longrightarrow> propertyLines a = [lit ''FN:'' @ escapeValue (fullName a)]) \<and>
    (company a \<noteq> [] \<longrightarrow> propertyLines a = [lit ''ORG:'' @ escapeValue (company a)]) \<and>
    (jobTitle a \<noteq> [] \<longrightarrow> propertyLines a = [lit ''TITLE:'' @ escapeValue (jobTitle a)]) \<and>
    (phones a \<noteq> [] \<longrightarrow>
       propertyLines a = map (\<lambda>number. lit ''TEL;TYPE=CELL:'' @ escapeValue number) (phones a)) \<and>
    (email a \<noteq> [] \<longrightarrow> propertyLines a = [lit ''EMAIL;TYPE=INTERNET:'' @ escapeValue (email a)]) \<and>
    (address a \<noteq> [] \<longrightarrow>
       propertyLines a =
         [lit ''ADR'' @
          (case addressType a of home \<Rightarrow> lit '';TYPE=HOME'' | work \<Rightarrow> lit '';TYPE=WORK''
           | other \<Rightarrow> []) @
          lit '':;;'' @ escapeValue (address a) @ lit '';;;;'']) \<and>
    (birthday a \<noteq> [] \<longrightarrow> propertyLines a = [lit ''BDAY:'' @ birthday a]) \<and>
    (website a \<noteq> [] \<longrightarrow> propertyLines a = [lit ''URL:'' @ escapeValue (website a)]) \<and>
    (notes' a \<noteq> [] \<longrightarrow> propertyLines a = [lit ''NOTE:'' @ escapeValue (notes' a)])"
proof -
  from assms have "nonEmptyFields a \<noteq> 0"
    by simp
  then have ne: "propertyLines a \<noteq> []"
    by (simp add: nonEmptyFields_0_iff propertyLines_Nil_iff)
  then have 1: "buildVCard a =
      join [LF] ([lit ''BEGIN:VCARD'', lit ''VERSION:3.0''] @ propertyLines a @ [lit ''END:VCARD''])"
    by (simp add: buildVCard_eq)
  note one = nonEmptyFields_1 [OF assms]
  have 2: "fullName a \<noteq> [] \<longrightarrow> propertyLines a = [lit ''FN:'' @ escapeValue (fullName a)]"
    using one(1) by (simp add: propertyLines_eq)
  have 3: "company a \<noteq> [] \<longrightarrow> propertyLines a = [lit ''ORG:'' @ escapeValue (company a)]"
    using one(2) by (simp add: propertyLines_eq)
  have 4: "jobTitle a \<noteq> [] \<longrightarrow> propertyLines a = [lit ''TITLE:'' @ escapeValue (jobTitle a)]"
    using one(3) by (simp add: propertyLines_eq)
  have 5: "phones a \<noteq> [] \<longrightarrow>
       propertyLines a = map (\<lambda>number. lit ''TEL;TYPE=CELL:'' @ escapeValue number) (phones a)"
    using one(4) by (simp add: propertyLines_eq telLine_def [abs_def])
  have 6: "email a \<noteq> [] \<longrightarrow>
       propertyLines a = [lit ''EMAIL;TYPE=INTERNET:'' @ escapeValue (email a)]"
    using one(5) by (simp add: propertyLines_eq)
  have 7: "address a \<noteq> [] \<longrightarrow>
       propertyLines a =
         [lit ''ADR'' @
          (case addressType a of home \<Rightarrow> lit '';TYPE=HOME'' | work \<Rightarrow> lit '';TYPE=WORK''
           | other \<Rightarrow> []) @
          lit '':;;'' @ escapeValue (address a) @ lit '';;;;'']"
    using one(6) by (simp add: propertyLines_eq)
  have 8: "birthday a \<noteq> [] \<longrightarrow> propertyLines a = [lit ''BDAY:'' @ birthday a]"
    using one(7) by (simp add: propertyLines_eq)
  have 9: "website a \<noteq> [] \<longrightarrow> propertyLines a = [lit ''URL:'' @ escapeValue (website a)]"
    using one(8) by (simp add: propertyLines_eq)
  have 10: "notes' a \<noteq> [] \<longrightarrow> propertyLines a = [lit ''NOTE:'' @ escapeValue (notes' a)]"
    using one(9) by (simp add: propertyLines_eq)
  have 11: "length (propertyLines a) = (if phones a = [] then 1 else length (phones a))"
    using length_propertyLines [of a] assms by (simp split: if_splits)
  from 1 11 2 3 4 5 6 7 8 9 10 show ?thesis
    by (intro conjI)
qed

theorem single_field_output_witness:
  "nonEmptyFields ada = 1 \<and> fullName ada \<noteq> [] \<and>
   propertyLines ada = [lit ''FN:Ada''] \<and>
   buildVCard ada =
     join [LF] [lit ''BEGIN:VCARD'', lit ''VERSION:3.0'', lit ''FN:Ada'', lit ''END:VCARD''] \<and>
   nonEmptyFields twoPhones = 1 \<and> phones twoPhones \<noteq> [] \<and>
   length (propertyLines twoPhones) = 2"
proof -
  have h: "nonEmptyFields ada = 1" and n: "fullName ada \<noteq> []"
    by (simp_all add: nonEmptyFields_def ada_def emptyArgs_def lit_def)
  have e: "lit ''FN:'' @ escapeValue (fullName ada) = lit ''FN:Ada''"
    by (simp add: ada_def emptyArgs_def eval_simps)
  have h': "nonEmptyFields twoPhones = 1" and n': "phones twoPhones \<noteq> []"
    and l: "length (phones twoPhones) = 2"
    by (simp_all add: nonEmptyFields_def twoPhones_def emptyArgs_def lit_def)
  note t = single_field_output [OF h]
  from t n have "propertyLines ada = [lit ''FN:'' @ escapeValue (fullName ada)]"
    by blast
  then have p: "propertyLines ada = [lit ''FN:Ada'']"
    by (simp only: e)
  from t have "buildVCard ada =
      join [LF] ([lit ''BEGIN:VCARD'', lit ''VERSION:3.0''] @ propertyLines ada @ [lit ''END:VCARD''])"
    by (rule conjunct1)
  then have b: "buildVCard ada =
     join [LF] [lit ''BEGIN:VCARD'', lit ''VERSION:3.0'', lit ''FN:Ada'', lit ''END:VCARD'']"
    by (simp only: p append.simps)
  from single_field_output [OF h'] n'
  have "length (propertyLines twoPhones) = length (phones twoPhones)"
    by simp
  then have l': "length (propertyLines twoPhones) = 2"
    by (simp only: l)
  from h n p b h' n' l' show ?thesis
    by (intro conjI)
qed

text \<open>
  C2 as stated, with exactly one property line for any single non-empty field, fails for a
  phone list of two numbers, which is what the two lines of the placeholder of the phone
  input parse to: the only non-empty field gives two property lines.
\<close>

theorem single_field_one_line_counterexample:
  "nonEmptyFields twoPhones = 1 \<and>
   parsePhoneNumbers (lit ''+84 907 741 147'' @ [LF] @ lit ''+1 408 592 1508'') = phones twoPhones \<and>
   propertyLines twoPhones =
     [lit ''TEL;TYPE=CELL:+84 907 741 147'', lit ''TEL;TYPE=CELL:+1 408 592 1508''] \<and>
   length (propertyLines twoPhones) \<noteq> 1"
  by (simp add: nonEmptyFields_def twoPhones_def emptyArgs_def propertyLines_eq telLine_def
      parsePhoneNumbers_def splitSeparators_def isSeparator_def trim_def isWhiteSpace_def
      eval_simps)

text \<open>
  C4, as amended. In the text that \<open>buildVCard\<close> returns, the property lines are, in this
  order: one line for each non-empty string field and one \<^verbatim>\<open>TEL;TYPE=CELL\<close> line for each
  entry of the phone list, under the names \<^verbatim>\<open>FN\<close>, \<^verbatim>\<open>ORG\<close>, \<^verbatim>\<open>TITLE\<close>, \<^verbatim>\<open>TEL;TYPE=CELL\<close>,
  \<^verbatim>\<open>EMAIL;TYPE=INTERNET\<close>, \<^verbatim>\<open>ADR\<close> (followed by \<^verbatim>\<open>;TYPE=HOME\<close> or \<^verbatim>\<open>;TYPE=WORK\<close> for these address
  types), \<^verbatim>\<open>BDAY\<close>, \<^verbatim>\<open>URL\<close>, \<^verbatim>\<open>NOTE\<close>; an empty string field or an empty phone list gives no
  line. The text is the join of the two header lines, these lines and \<^verbatim>\<open>END:VCARD\<close>, or
  empty when there is none. The first page does not include its lines on condition:
  \<open>generateQR\<close>, once one of its four inputs is filled, stores the fixed template with the
  lines \<^verbatim>\<open>FN:\<close>, \<^verbatim>\<open>TEL:\<close>, \<^verbatim>\<open>ADR:;;\<close>...\<^verbatim>\<open>;;;;\<close> and \<^verbatim>\<open>BDAY:\<close> for all four inputs, empty or not, and
  stores nothing when all four are empty.
\<close>

theorem property_lines_by_field:
  "map propertyName (propertyLines a) =
     (if fullName a \<noteq> [] then [lit ''FN''] else []) @
     (if company a \<noteq> [] then [lit ''ORG''] else []) @
     (if jobTitle a \<noteq> [] then [lit ''TITLE''] else []) @
     replicate (length (phones a)) (lit ''TEL;TYPE=CELL'') @
     (if email a \<noteq> [] then [lit ''EMAIL;TYPE=INTERNET''] else []) @
     (if address a \<noteq> []
      then [lit ''ADR'' @
            (case addressType a of home \<Rightarrow> lit '';TYPE=HOME'' | work \<Rightarrow> lit '';TYPE=WORK''
             | other \<Rightarrow> [])]
      else []) @
     (if birthday a \<noteq> [] then [lit ''BDAY''] else []) @
     (if website a \<noteq> [] then [lit ''URL''] else []) @
     (if notes' a \<noteq> [] then [lit ''NOTE''] else []) \<and>
   buildVCard a =
     (if propertyLines a = [] then []
      else join [LF] ([lit ''BEGIN:VCARD'', lit ''VERSION:3.0''] @ propertyLines a @
                      [lit ''END:VCARD''])) \<and>
   (allInputsEmpty_v1 fs \<longrightarrow> qrValue (snd (generateQR fs)) = qrValue fs) \<and>
   (\<not> allInputsEmpty_v1 fs \<longrightarrow>
      qrValue (snd (generateQR fs)) =
        join [LF] [lit ''BEGIN:VCARD'', lit ''VERSION:3.0'',
          lit ''FN:'' @ name fs,
          lit ''TEL:'' @ phone fs,
          lit ''ADR:;;'' @ address_v1 fs @ lit '';;;;'',
          lit ''BDAY:'' @ birthday_v1 fs,
          lit ''END:VCARD''])"
proof (intro conjI impI)
  have names:
    "propertyName (lit ''FN:'' @ v1) = lit ''FN''"
    "propertyName (lit ''ORG:'' @ v2) = lit ''ORG''"
    "propertyName (lit ''TITLE:'' @ v3) = lit ''TITLE''"
    "propertyName (lit ''EMAIL;TYPE=INTERNET:'' @ v4) = lit ''EMAIL;TYPE=INTERNET''"
    "propertyName (lit ''ADR'' @
         (case t of home \<Rightarrow> lit '';TYPE=HOME'' | work \<Rightarrow> lit '';TYPE=WORK'' | other \<Rightarrow> []) @
         lit '':;;'' @ v5) =
       lit ''ADR'' @
         (case t of home \<Rightarrow> lit '';TYPE=HOME'' | work \<Rightarrow> lit '';TYPE=WORK'' | other \<Rightarrow> [])"
    "propertyName (lit ''BDAY:'' @ v6) = lit ''BDAY''"
    "propertyName (lit ''URL:'' @ v7) = lit ''URL''"
    "propertyName (lit ''NOTE:'' @ v8) = lit ''NOTE''"
    for v1 v2 v3 v4 v5 v6 v7 v8 t
    by (simp_all add: propertyName_def lit_def split: AddressType.split)
  show "map propertyName (propertyLines a) =
     (if fullName a \<noteq> [] then [lit ''FN''] else []) @
     (if company a \<noteq> [] then [lit ''ORG''] else []) @
     (if jobTitle a \<noteq> [] then [lit ''TITLE''] else []) @
     replicate (length (phones a)) (lit ''TEL;TYPE=CELL'') @
     (if email a \<noteq> [] then [lit ''EMAIL;TYPE=INTERNET''] else []) @
     (if address a \<noteq> []
      then [lit ''ADR'' @
            (case addressType a of home \<Rightarrow> lit '';TYPE=HOME'' | work \<Rightarrow> lit '';TYPE=WORK''
             | other \<Rightarrow> [])]
      else []) @
     (if birthday a \<noteq> [] then [lit ''BDAY''] else []) @
     (if website a \<noteq> [] then [lit ''URL''] else []) @
     (if notes' a \<noteq> [] then [lit ''NOTE''] else [])"
    unfolding propertyLines_eq map_append map_propertyName_telLine if_distrib [of "map propertyName"]
      list.map names ..
  show "buildVCard a =
     (if propertyLines a = [] then []
      else join [LF] ([lit ''BEGIN:VCARD'', lit ''VERSION:3.0''] @ propertyLines a @
                      [lit ''END:VCARD'']))"
    by (rule buildVCard_eq)
next
  assume "allInputsEmpty_v1 fs"
  then show "qrValue (snd (generateQR fs)) = qrValue fs"
    by (simp add: generateQR_def allInputsEmpty_v1_def)
next
  assume "\<not> allInputsEmpty_v1 fs"
  then show "qrValue (snd (generateQR fs)) =
        join [LF] [lit ''BEGIN:VCARD'', lit ''VERSION:3.0'',
          lit ''FN:'' @ name fs,
          lit ''TEL:'' @ phone fs,
          lit ''ADR:;;'' @ address_v1 fs @ lit '';;;;'',
          lit ''BDAY:'' @ birthday_v1 fs,
          lit ''END:VCARD'']"
    by (simp add: generateQR_text)
qed

theorem property_lines_by_field_witness:
  "map propertyName (propertyLines adaFull) =
     [lit ''FN'', lit ''ORG'', lit ''TEL;TYPE=CELL'', lit ''EMAIL;TYPE=INTERNET'',
      lit ''ADR;TYPE=HOME'', lit ''BDAY'', lit ''NOTE''] \<and>
   buildVCard (emptyArgs home) = [] \<and>
   allInputsEmpty_v1 emptyFirstPage \<and>
   qrValue (snd (generateQR emptyFirstPage)) = [] \<and>
   \<not> allInputsEmpty_v1 phoneOnly_v1 \<and>
   qrValue (snd (generateQR phoneOnly_v1)) =
     join [LF] [lit ''BEGIN:VCARD'', lit ''VERSION:3.0'', lit ''FN:'', lit ''TEL:555'',
       lit ''ADR:;;;;;;'', lit ''BDAY:'', lit ''END:VCARD'']"
proof -
  have e: "propertyLines (emptyArgs home) = []"
    by (simp add: propertyLines_Nil_iff isEmptyRecord_def emptyArgs_def)
  have h1: "allInputsEmpty_v1 emptyFirstPage"
    by (simp add: allInputsEmpty_v1_def emptyFirstPage_def)
  have h2: "\<not> allInputsEmpty_v1 phoneOnly_v1"
    by (simp add: allInputsEmpty_v1_def phoneOnly_v1_def emptyFirstPage_def lit_def)
  note t1 = property_lines_by_field [of "emptyArgs home" emptyFirstPage]
  note t2 = property_lines_by_field [of adaFull phoneOnly_v1]
  from t1 e have 1: "buildVCard (emptyArgs home) = []"
    by simp
  from t1 h1 have 2: "qrValue (snd (generateQR emptyFirstPage)) = []"
    by (simp add: emptyFirstPage_def)
  from t2 have 3: "map propertyName (propertyLines adaFull) =
     [lit ''FN'', lit ''ORG'', lit ''TEL;TYPE=CELL'', lit ''EMAIL;TYPE=INTERNET'',
      lit ''ADR;TYPE=HOME'', lit ''BDAY'', lit ''NOTE'']"
    by (simp add: adaFull_def lit_def)
  from t2 h2 have 4: "qrValue (snd (generateQR phoneOnly_v1)) =
     join [LF] [lit ''BEGIN:VCARD'', lit ''VERSION:3.0'', lit ''FN:'', lit ''TEL:555'',
       lit ''ADR:;;;;;;'', lit ''BDAY:'', lit ''END:VCARD'']"
    by (simp add: phoneOnly_v1_def emptyFirstPage_def lit_def)
  from 3 1 h1 2 h2 4 show ?thesis
    by (intro conjI)
qed

text \<open>
  C4 as stated, with one line per non-empty field and none for an empty one, fails twice. In
  the builder a name and two phone numbers are two non-empty fields and give three property
  lines. On the first page a phone number alone gives the lines \<^verbatim>\<open>FN:\<close>, \<^verbatim>\<open>ADR:;;;;;;\<close> and
  \<^verbatim>\<open>BDAY:\<close> of the three empty inputs beside \<^verbatim>\<open>TEL:555\<close>, which carries no \<^verbatim>\<open>TYPE=CELL\<close>.
\<close>

theorem one_line_per_field_counterexample:
  "nonEmptyFields adaTwoPhones = 2 \<and>
   propertyLines adaTwoPhones =
     [lit ''FN:Ada'', lit ''TEL;TYPE=CELL:555'', lit ''TEL;TYPE=CELL:556''] \<and>
   length (propertyLines adaTwoPhones) \<noteq> nonEmptyFields adaTwoPhones \<and>
   buildVCard adaTwoPhones =
     join [LF] [lit ''BEGIN:VCARD'', lit ''VERSION:3.0'', lit ''FN:Ada'',
       lit ''TEL;TYPE=CELL:555'', lit ''TEL;TYPE=CELL:556'', lit ''END:VCARD''] \<and>
   name phoneOnly_v1 = [] \<and> address_v1 phoneOnly_v1 = [] \<and> birthday_v1 phoneOnly_v1 = [] \<and>
   qrValue (snd (generateQR phoneOnly_v1)) =
     join [LF] [lit ''BEGIN:VCARD'', lit ''VERSION:3.0'', lit ''FN:'', lit ''TEL:555'',
       lit ''ADR:;;;;;;'', lit ''BDAY:'', lit ''END:VCARD'']"
proof -
  have v1: "\<not> allInputsEmpty_v1 phoneOnly_v1"
    by (simp add: allInputsEmpty_v1_def phoneOnly_v1_def emptyFirstPage_def lit_def)
  have g: "qrValue (snd (generateQR phoneOnly_v1)) =
     join [LF] [lit ''BEGIN:VCARD'', lit ''VERSION:3.0'', lit ''FN:'', lit ''TEL:555'',
       lit ''ADR:;;;;;;'', lit ''BDAY:'', lit ''END:VCARD'']"
    unfolding generateQR_text [OF v1]
    by (simp add: phoneOnly_v1_def emptyFirstPage_def lit_def)
  have e: "name phoneOnly_v1 = []" "address_v1 phoneOnly_v1 = []" "birthday_v1 phoneOnly_v1 = []"
    by (simp_all add: phoneOnly_v1_def emptyFirstPage_def)
  have b: "nonEmptyFields adaTwoPhones = 2"
    "propertyLines adaTwoPhones =
       [lit ''FN:Ada'', lit ''TEL;TYPE=CELL:555'', lit ''TEL;TYPE=CELL:556'']"
    "length (propertyLines adaTwoPhones) \<noteq> nonEmptyFields adaTwoPhones"
    "buildVCard adaTwoPhones =
       join [LF] [lit ''BEGIN:VCARD'', lit ''VERSION:3.0'', lit ''FN:Ada'',
         lit ''TEL;TYPE=CELL:555'', lit ''TEL;TYPE=CELL:556'', lit ''END:VCARD'']"
    by (simp_all add: nonEmptyFields_def adaTwoPhones_def ada_def emptyArgs_def buildVCard_eq
        propertyLines_eq telLine_def eval_simps)
  from b e g show ?thesis
    by (intro conjI)
qed

section \<open>Phone numbers\<close>

text \<open>
  C5. The phone numbers of an input text are its pieces between newlines, commas and
  semicolons, trimmed, the blank ones holding no number. In the text that \<open>buildVCard\<close>
  returns for a contact record with these phone numbers, the \<^verbatim>\<open>TEL;TYPE=CELL\<close> lines are
  exactly one line for each of them, in the order of the input.
\<close>

theorem phone_numbers_to_TEL_lines:
  "parsePhoneNumbers s = filter (\<lambda>entry. entry \<noteq> []) (map trim (splitEach [] s)) \<and>
   (isDateInputValue (birthday a) \<longrightarrow>
      filter isTelLine (textLines (buildVCard (a\<lparr>phones := parsePhoneNumbers s\<rparr>))) =
        map (\<lambda>number. lit ''TEL;TYPE=CELL:'' @ escapeValue number) (parsePhoneNumbers s))"
proof (intro conjI impI)
  show "parsePhoneNumbers s = filter (\<lambda>entry. entry \<noteq> []) (map trim (splitEach [] s))"
    by (rule parsePhoneNumbers_splitEach)
next
  assume "isDateInputValue (birthday a)"
  then have "LF \<notin> set (birthday (a\<lparr>phones := parsePhoneNumbers s\<rparr>))"
    by (simp add: isDateInputValue_LF)
  from telLines_buildVCard [OF this]
  show "filter isTelLine (textLines (buildVCard (a\<lparr>phones := parsePhoneNumbers s\<rparr>))) =
        map (\<lambda>number. lit ''TEL;TYPE=CELL:'' @ escapeValue number) (parsePhoneNumbers s)"
    by (simp add: telLine_def [abs_def])
qed

theorem phone_numbers_to_TEL_lines_witness:
  "isDateInputValue (birthday ada) \<and>
   parsePhoneNumbers phoneText = [lit ''+84 907'', lit ''555'', lit ''+1 408''] \<and>
   buildVCard (ada\<lparr>phones := parsePhoneNumbers phoneText\<rparr>) =
     join [LF] [lit ''BEGIN:VCARD'', lit ''VERSION:3.0'', lit ''FN:Ada'',
       lit ''TEL;TYPE=CELL:+84 907'', lit ''TEL;TYPE=CELL:555'', lit ''TEL;TYPE=CELL:+1 408'',
       lit ''END:VCARD''] \<and>
   filter isTelLine (textLines (buildVCard (ada\<lparr>phones := parsePhoneNumbers phoneText\<rparr>))) =
     [lit ''TEL;TYPE=CELL:+84 907'', lit ''TEL;TYPE=CELL:555'', lit ''TEL;TYPE=CELL:+1 408'']"
proof -
  have d: "isDateInputValue (birthday ada)"
    by (simp add: isDateInputValue_def ada_def emptyArgs_def)
  have p: "parsePhoneNumbers phoneText = [lit ''+84 907'', lit ''555'', lit ''+1 408'']"
    by (rule parse_phoneText)
  have m: "map (\<lambda>number. lit ''TEL;TYPE=CELL:'' @ escapeValue number)
          [lit ''+84 907'', lit ''555'', lit ''+1 408''] =
        [lit ''TEL;TYPE=CELL:+84 907'', lit ''TEL;TYPE=CELL:555'', lit ''TEL;TYPE=CELL:+1 408'']"
    by (simp add: eval_simps)
  have b: "buildVCard (ada\<lparr>phones := parsePhoneNumbers phoneText\<rparr>) =
     join [LF] [lit ''BEGIN:VCARD'', lit ''VERSION:3.0'', lit ''FN:Ada'',
       lit ''TEL;TYPE=CELL:+84 907'', lit ''TEL;TYPE=CELL:555'', lit ''TEL;TYPE=CELL:+1 408'',
       lit ''END:VCARD'']"
    unfolding p
    by (simp add: buildVCard_eq propertyLines_eq ada_def emptyArgs_def telLine_def eval_simps)
  from phone_numbers_to_TEL_lines [of phoneText ada] d
  have "filter isTelLine (textLines (buildVCard (ada\<lparr>phones := parsePhoneNumbers phoneText\<rparr>))) =
        map (\<lambda>number. lit ''TEL;TYPE=CELL:'' @ escapeValue number) (parsePhoneNumbers phoneText)"
    by blast
  also have "\<dots> = [lit ''TEL;TYPE=CELL:+84 907'', lit ''TEL;TYPE=CELL:555'', lit ''TEL;TYPE=CELL:+1 408'']"
    unfolding p by (rule m)
  finally show ?thesis
    using d p b by (intro conjI)
qed

text \<open>
  C10. Every entry that \<open>parsePhoneNumbers\<close> returns is non-empty, holds no newline, comma
  or semicolon, and neither begins nor ends with white space.
\<close>

theorem parsePhoneNumbers_entries_clean:
  "\<forall>e\<in>set (parsePhoneNumbers s).
     e \<noteq> [] \<and> LF \<notin> set e \<and> COMMA \<notin> set e \<and> SEMICOLON \<notin> set e \<and>
     \<not> isWhiteSpace (hd e) \<and> \<not> isWhiteSpace (last e)"
proof
  fix e
  assume e: "e \<in> set (parsePhoneNumbers s)"
  from parsePhoneNumbers_entry(3) [OF e]
  have "LF \<notin> set e \<and> COMMA \<notin> set e \<and> SEMICOLON \<notin> set e"
    by (auto simp: isSeparator_def)
  with parsePhoneNumbers_entry(1,4,5) [OF e]
  show "e \<noteq> [] \<and> LF \<notin> set e \<and> COMMA \<notin> set e \<and> SEMICOLON \<notin> set e \<and>
     \<not> isWhiteSpace (hd e) \<and> \<not> isWhiteSpace (last e)"
    by simp
qed

theorem parsePhoneNumbers_entries_clean_witness:
  "lit ''+84 907'' \<in> set (parsePhoneNumbers phoneText) \<and>
   lit ''+84 907'' \<noteq> [] \<and> LF \<notin> set (lit ''+84 907'') \<and> COMMA \<notin> set (lit ''+84 907'') \<and>
   SEMICOLON \<notin> set (lit ''+84 907'') \<and>
   \<not> isWhiteSpace (hd (lit ''+84 907'')) \<and> \<not> isWhiteSpace (last (lit ''+84 907''))"
proof -
  have h: "lit ''+84 907'' \<in> set (parsePhoneNumbers phoneText)"
    by (simp add: parse_phoneText)
  from h parsePhoneNumbers_entries_clean [of phoneText] show ?thesis
    by blast
qed

section \<open>The empty output and the empty-input guard\<close>

text \<open>
  C9. The builder returns the empty string exactly for the empty record. So a page whose
  only content is a phone input made of separators and white space, which parses to the
  empty phone list, has the empty vCard.
\<close>

theorem buildVCard_empty_iff:
  "(buildVCard a = [] \<longleftrightarrow> isEmptyRecord a) \<and>
   (otherInputsEmpty st \<and> (\<forall>c\<in>set (st_phoneInput st). isSeparator c \<or> isWhiteSpace c) \<longrightarrow>
      parsePhoneNumbers (st_phoneInput st) = [] \<and> vCard st = [])"
proof (intro conjI impI)
  show "buildVCard a = [] \<longleftrightarrow> isEmptyRecord a"
    by (rule buildVCard_Nil_iff)
next
  assume h: "otherInputsEmpty st \<and> (\<forall>c\<in>set (st_phoneInput st). isSeparator c \<or> isWhiteSpace c)"
  then show p: "parsePhoneNumbers (st_phoneInput st) = []"
    by (simp add: parsePhoneNumbers_blank)
  with h show "vCard st = []"
    by (simp add: vCard_argsOf buildVCard_Nil_iff isEmptyRecord_argsOf)
qed

theorem buildVCard_empty_iff_witness:
  "(buildVCard ada = [] \<longleftrightarrow> isEmptyRecord ada) \<and> \<not> isEmptyRecord ada \<and>
   otherInputsEmpty (emptyHome\<lparr>st_phoneInput := blankPhoneText\<rparr>) \<and>
   blankPhoneText \<noteq> [] \<and>
   parsePhoneNumbers (st_phoneInput (emptyHome\<lparr>st_phoneInput := blankPhoneText\<rparr>)) = [] \<and>
   vCard (emptyHome\<lparr>st_phoneInput := blankPhoneText\<rparr>) = []"
proof -
  let ?st = "emptyHome\<lparr>st_phoneInput := blankPhoneText\<rparr>"
  have h1: "otherInputsEmpty ?st"
    by (simp add: otherInputsEmpty_def emptyHome_def)
  have h2: "\<forall>c\<in>set (st_phoneInput ?st). isSeparator c \<or> isWhiteSpace c"
    by (simp add: blankPhoneText_def lit_def isSeparator_def isWhiteSpace_def char_defs)
  have h3: "\<not> isEmptyRecord ada" and h4: "blankPhoneText \<noteq> []"
    by (simp_all add: isEmptyRecord_def ada_def emptyArgs_def lit_def blankPhoneText_def)
  from h1 h2 h3 h4 buildVCard_empty_iff [of ada ?st] show ?thesis
    by blast
qed

text \<open>
  C8, as amended. No QR value is produced exactly when the inputs hold no contact
  information. On the current page that is when every input but the phone input is empty
  and the phone input is empty or made of separators and white space only, so in particular
  when every input is empty: then the vCard is empty, the hint stands in place of the QR
  code and the export actions are disabled; in every other state the QR code of a non-empty
  vCard is shown and the exports are enabled. On the first page that is when all four inputs
  are empty: \<open>generateQR\<close> alerts and leaves the state as it was, and in every other state it
  stores a non-empty QR value.
\<close>

theorem empty_input_guard:
  "(allInputsEmpty st \<longrightarrow> noContactInput st) \<and>
   (noContactInput st \<longrightarrow>
      vCard st = [] \<and> \<not> hasContactInfo st \<and> qrPanel st = AddDetailHint \<and> exportDisabled st \<and>
      handleDownloadVCard st = None) \<and>
   (\<not> noContactInput st \<longrightarrow>
      vCard st \<noteq> [] \<and> hasContactInfo st \<and> qrPanel st = QRCode (vCard st) \<and>
      \<not> exportDisabled st \<and> handleDownloadVCard st \<noteq> None) \<and>
   (allInputsEmpty_v1 fs \<longrightarrow>
      generateQR fs = (Some (lit ''Please fill in at least one field.''), fs)) \<and>
   (\<not> allInputsEmpty_v1 fs \<longrightarrow>
      fst (generateQR fs) = None \<and> qrValue (snd (generateQR fs)) \<noteq> [])"
proof (intro conjI impI)
  assume "allInputsEmpty st"
  then show "noContactInput st"
    by (simp add: allInputsEmpty_def noContactInput_def holdsNoNumber_def)
next
  assume "noContactInput st"
  then have "vCard st = []"
    by (simp only: vCard_Nil_iff)
  then show "vCard st = []" "\<not> hasContactInfo st" "qrPanel st = AddDetailHint"
    "exportDisabled st" "handleDownloadVCard st = None"
    by (simp_all add: hasContactInfo_def qrPanel_def exportDisabled_def handleDownloadVCard_def)
next
  assume "\<not> noContactInput st"
  then have "vCard st \<noteq> []"
    by (simp only: vCard_Nil_iff not_False_eq_True)
  then show "vCard st \<noteq> []" "hasContactInfo st" "qrPanel st = QRCode (vCard st)"
    "\<not> exportDisabled st" "handleDownloadVCard st \<noteq> None"
    by (simp_all add: hasContactInfo_def qrPanel_def exportDisabled_def handleDownloadVCard_def)
next
  assume "allInputsEmpty_v1 fs"
  then show "generateQR fs = (Some (lit ''Please fill in at least one field.''), fs)"
    by (simp add: generateQR_def allInputsEmpty_v1_def)
next
  assume "\<not> allInputsEmpty_v1 fs"
  then show "fst (generateQR fs) = None" "qrValue (snd (generateQR fs)) \<noteq> []"
    using generateQR_value [of fs] by simp_all
qed

theorem empty_input_guard_witness:
  "allInputsEmpty emptyHome \<and> noContactInput emptyHome \<and> vCard emptyHome = [] \<and>
   qrPanel emptyHome = AddDetailHint \<and> exportDisabled emptyHome \<and>
   handleDownloadVCard emptyHome = None \<and>
   noContactInput semicolonPhone \<and> qrPanel semicolonPhone = AddDetailHint \<and>
   \<not> noContactInput phoneOnly \<and>
   vCard phoneOnly =
     join [LF] [lit ''BEGIN:VCARD'', lit ''VERSION:3.0'', lit ''TEL;TYPE=CELL:555'',
       lit ''END:VCARD''] \<and>
   qrPanel phoneOnly = QRCode (vCard phoneOnly) \<and> \<not> exportDisabled phoneOnly \<and>
   \<not> noContactInput (emptyHome\<lparr>st_fullName := lit ''Ada''\<rparr>) \<and>
   qrPanel (emptyHome\<lparr>st_fullName := lit ''Ada''\<rparr>) =
     QRCode (vCard (emptyHome\<lparr>st_fullName := lit ''Ada''\<rparr>)) \<and>
   allInputsEmpty_v1 emptyFirstPage \<and>
   generateQR emptyFirstPage = (Some (lit ''Please fill in at least one field.''), emptyFirstPage) \<and>
   \<not> allInputsEmpty_v1 phoneOnly_v1 \<and>
   fst (generateQR phoneOnly_v1) = None \<and> qrValue (snd (generateQR phoneOnly_v1)) \<noteq> []"
proof -
  let ?ada = "emptyHome\<lparr>st_fullName := lit ''Ada''\<rparr>"
  have h1: "allInputsEmpty emptyHome"
    by (simp add: allInputsEmpty_def otherInputsEmpty_def emptyHome_def)
  have h2: "allInputsEmpty_v1 emptyFirstPage"
    by (simp add: allInputsEmpty_v1_def emptyFirstPage_def)
  have h3: "noContactInput semicolonPhone"
    by (simp add: noContactInput_def otherInputsEmpty_def holdsNoNumber_def semicolonPhone_def
        emptyHome_def lit_def isSeparator_def char_defs)
  have h4: "\<not> noContactInput phoneOnly"
    by (simp add: noContactInput_def otherInputsEmpty_def holdsNoNumber_def phoneOnly_def
        emptyHome_def lit_def isSeparator_def isWhiteSpace_def char_defs)
  have h5: "\<not> noContactInput ?ada"
    by (simp add: noContactInput_def otherInputsEmpty_def emptyHome_def lit_def)
  have h6: "\<not> allInputsEmpty_v1 phoneOnly_v1"
    by (simp add: allInputsEmpty_v1_def phoneOnly_v1_def emptyFirstPage_def lit_def)
  have v: "vCard phoneOnly =
     join [LF] [lit ''BEGIN:VCARD'', lit ''VERSION:3.0'', lit ''TEL;TYPE=CELL:555'',
       lit ''END:VCARD'']"
    by (simp add: vCard_def phoneOnly_def emptyHome_def parsePhoneNumbers_def
        splitSeparators_def isSeparator_def trim_def isWhiteSpace_def buildVCard_eq
        propertyLines_eq telLine_def eval_simps)
  from h1 h2 empty_input_guard [of emptyHome emptyFirstPage]
  have a: "noContactInput emptyHome \<and> vCard emptyHome = [] \<and>
   qrPanel emptyHome = AddDetailHint \<and> exportDisabled emptyHome \<and>
   handleDownloadVCard emptyHome = None \<and>
   generateQR emptyFirstPage = (Some (lit ''Please fill in at least one field.''), emptyFirstPage)"
    by blast
  from h3 empty_input_guard [of semicolonPhone emptyFirstPage]
  have b: "qrPanel semicolonPhone = AddDetailHint"
    by blast
  from h4 h6 empty_input_guard [of phoneOnly phoneOnly_v1]
  have c: "qrPanel phoneOnly = QRCode (vCard phoneOnly) \<and> \<not> exportDisabled phoneOnly \<and>
     fst (generateQR phoneOnly_v1) = None \<and> qrValue (snd (generateQR phoneOnly_v1)) \<noteq> []"
    by blast
  from h5 empty_input_guard [of ?ada emptyFirstPage]
  have d: "qrPanel ?ada = QRCode (vCard ?ada)"
    by blast
  from h1 h2 h3 h4 h5 h6 v a b c d show ?thesis
    by blast
qed

text \<open>
  C8 as stated, with the guard rejecting only when every input is empty, fails on the
  current page: with a semicolon in the phone input one input is filled, and still the
  vCard is empty, the hint is shown and the exports are disabled.
\<close>

theorem empty_guard_only_when_all_empty_counterexample:
  "\<not> allInputsEmpty semicolonPhone \<and> st_phoneInput semicolonPhone = lit '';'' \<and>
   parsePhoneNumbers (st_phoneInput semicolonPhone) = [] \<and>
   vCard semicolonPhone = [] \<and> \<not> hasContactInfo semicolonPhone \<and>
   qrPanel semicolonPhone = AddDetailHint \<and> exportDisabled semicolonPhone"
proof -
  have "holdsNoNumber (st_phoneInput semicolonPhone)"
    by (simp add: holdsNoNumber_def semicolonPhone_def emptyHome_def lit_def isSeparator_def
        char_defs)
  then have p: "parsePhoneNumbers (st_phoneInput semicolonPhone) = []"
    by (simp only: parsePhoneNumbers_Nil_iff)
  have o: "otherInputsEmpty semicolonPhone"
    by (simp add: otherInputsEmpty_def semicolonPhone_def emptyHome_def)
  from o p have v: "vCard semicolonPhone = []"
    by (simp add: vCard_argsOf buildVCard_Nil_iff isEmptyRecord_argsOf)
  have n: "\<not> allInputsEmpty semicolonPhone" "st_phoneInput semicolonPhone = lit '';''"
    by (simp_all add: allInputsEmpty_def semicolonPhone_def emptyHome_def lit_def)
  from n p v show ?thesis
    by (simp add: hasContactInfo_def qrPanel_def exportDisabled_def)
qed

end
